theory Spec2Isabelle
  imports Complex_Main "HOL-Library.AList" "HOL-Library.Multiset"
begin

section \<open>Solver callbacks of MathOpt: \<^verbatim>\<open>ortools/math_opt/python/callback.py\<close>\<close>

subsection \<open>Values\<close>

text \<open>
  Python's \<^verbatim>\<open>float\<close>. The finite values are taken as reals (rounding and overflow are
  not modelled); the two infinities and NaN are values of their own, with the IEEE rules
  for sums and differences that involve them.
\<close>

datatype pyfloat = Fin real | PosInf | NegInf | NaN

fun isinf :: "pyfloat \<Rightarrow> bool" where
  "isinf PosInf = True"
| "isinf NegInf = True"
| "isinf _ = False"

fun float_add :: "pyfloat \<Rightarrow> pyfloat \<Rightarrow> pyfloat" where
  "float_add (Fin a) (Fin b) = Fin (a + b)"
| "float_add NaN _ = NaN"
| "float_add _ NaN = NaN"
| "float_add PosInf NegInf = NaN"
| "float_add NegInf PosInf = NaN"
| "float_add PosInf _ = PosInf"
| "float_add _ PosInf = PosInf"
| "float_add NegInf _ = NegInf"
| "float_add _ NegInf = NegInf"

fun float_neg :: "pyfloat \<Rightarrow> pyfloat" where
  "float_neg (Fin a) = Fin (- a)"
| "float_neg PosInf = NegInf"
| "float_neg NegInf = PosInf"
| "float_neg NaN = NaN"

definition float_sub :: "pyfloat \<Rightarrow> pyfloat \<Rightarrow> pyfloat" where
  "float_sub a b = float_add a (float_neg b)"

text \<open>
  The errors of the callback layer, named as the design names them. In the Python they
  are exceptions raised by \<^verbatim>\<open>Event(...)\<close>, by the model's variable lookup and by the
  normalisation of a constraint.
\<close>

datatype error =
    InvalidEventCode
  | UnknownVariableIdentifier
  | AmbiguousConstraintSpecification
  | InvalidConstraintBound

subsection \<open>Events\<close>

datatype event = UNSPECIFIED | PRESOLVE | SIMPLEX | MIP | MIP_SOLUTION | MIP_NODE | BARRIER

text \<open>The members of the enumeration, in the order of their definition.\<close>

definition all_events :: "event list" where
  "all_events = [UNSPECIFIED, PRESOLVE, SIMPLEX, MIP, MIP_SOLUTION, MIP_NODE, BARRIER]"

text \<open>
  The numeric value of a member is a constant of the generated module \<^verbatim>\<open>callback_pb2\<close>,
  so it is a parameter \<open>val\<close> of everything that reads it. The class is decorated with
  \<^verbatim>\<open>@enum.unique\<close>: the values are pairwise distinct, which is \<open>inj val\<close>.

  \<^verbatim>\<open>Event(code)\<close> returns the member whose value is \<open>code\<close> and raises when there is none.
\<close>

definition Event :: "(event \<Rightarrow> int) \<Rightarrow> int \<Rightarrow> error + event" where
  "Event val code =
     (case find (\<lambda>e. val e = code) all_events of
        None \<Rightarrow> Inl InvalidEventCode
      | Some e \<Rightarrow> Inr e)"

text \<open>The values that the proto file of MathOpt gives the members, for concrete runs.\<close>

fun proto_value :: "event \<Rightarrow> int" where
  "proto_value UNSPECIFIED = 0"
| "proto_value PRESOLVE = 1"
| "proto_value SIMPLEX = 2"
| "proto_value MIP = 3"
| "proto_value MIP_SOLUTION = 4"
| "proto_value MIP_NODE = 5"
| "proto_value BARRIER = 6"

subsection \<open>The model and its variables\<close>

text \<open>
  A variable handle compares and hashes by its identifier within its model. The model
  is consulted for one thing only: whether an identifier names one of its variables.
\<close>

datatype variable = Variable (var_id: int)

record model =
  variable_ids :: "int set"

text \<open>
  Modelled from the spec: \<^verbatim>\<open>Model.get_variable\<close> of \<^verbatim>\<open>ortools/math_opt/python/model.py\<close>,
  which is not among the sources. The design says: resolve the id against the model's
  variable namespace; fail with an unknown-identifier error if the id has no
  corresponding variable.
\<close>

definition get_variable :: "model \<Rightarrow> int \<Rightarrow> error + variable" where
  "get_variable mdl i =
     (if i \<in> variable_ids mdl then Inr (Variable i) else Inl UnknownVariableIdentifier)"

subsection \<open>Dictionaries\<close>

text \<open>
  A Python \<^verbatim>\<open>dict\<close> is an association list with pairwise distinct keys, in insertion
  order. \<^verbatim>\<open>d[k] = v\<close> is \<^const>\<open>AList.update\<close>: the value of a key that is present is
  replaced where it stands, a new key goes to the end.
\<close>

type_synonym ('k, 'v) dict = "('k \<times> 'v) list"

text \<open>The display \<^verbatim>\<open>{k1: v1, k2: v2, ...}\<close>: the entries are stored from left to right.\<close>

definition dict_display :: "('k \<times> 'v) list \<Rightarrow> ('k, 'v) dict" where
  "dict_display kvs = fold (\<lambda>(k, v) d. AList.update k v d) kvs []"

subsection \<open>Callback data\<close>

record sparse_double_vector_proto =
  ids :: "int list"
  vals :: "pyfloat list"

text \<open>
  \<^verbatim>\<open>CallbackDataProto\<close>. The field \<open>primal_solution_vector\<close> is \<open>None\<close> when
  \<^verbatim>\<open>HasField\<close> answers no. The runtime and the four statistics messages are opaque
  here: types \<open>'d\<close>, \<open>'ps\<close>, \<open>'ss\<close>, \<open>'bs\<close> and \<open>'ms\<close>.
\<close>

record ('d, 'ps, 'ss, 'bs, 'ms) callback_data_proto =
  pb_event :: int
  primal_solution_vector :: "sparse_double_vector_proto option"
  pb_runtime :: 'd
  pb_presolve_stats :: 'ps
  pb_simplex_stats :: 'ss
  pb_barrier_stats :: 'bs
  pb_mip_stats :: 'ms

record ('t, 'ps, 'ss, 'bs, 'ms) callback_data =
  event :: event
  solution :: "(variable, pyfloat) dict option"
  messages :: "string list"
  runtime :: 't
  presolve_stats :: 'ps
  simplex_stats :: 'ss
  barrier_stats :: 'bs
  mip_stats :: 'ms

text \<open>
  The comprehension
  \<^verbatim>\<open>{mod.get_variable(id): val for (id, val) in zip(ids, values)}\<close>:
  the pairs are visited in order, each id is resolved (the first failure ends the
  comprehension), and the value is stored under the resolved variable.
\<close>

fun solution_of_pairs ::
  "model \<Rightarrow> (int \<times> pyfloat) list \<Rightarrow> (variable, pyfloat) dict \<Rightarrow> error + (variable, pyfloat) dict"
where
  "solution_of_pairs mdl [] d = Inr d"
| "solution_of_pairs mdl ((i, v) # ps) d =
     (case get_variable mdl i of
        Inl e \<Rightarrow> Inl e
      | Inr x \<Rightarrow> solution_of_pairs mdl ps (AList.update x v d))"

text \<open>
  \<^verbatim>\<open>parse_callback_data(cb_data, mod)\<close>. The result starts as \<^verbatim>\<open>CallbackData()\<close>, whose
  \<open>solution\<close> is \<open>None\<close> and whose \<open>messages\<close> is the empty list; the function
  assigns \<open>event\<close>, then \<open>solution\<close> when the vector is present, then \<open>runtime\<close>
  (through \<^verbatim>\<open>ToTimedelta\<close> of the protobuf library, the parameter \<open>to_timedelta\<close>) and
  the four statistics blocks. It never assigns \<open>messages\<close>.
\<close>

definition parse_callback_data ::
  "(event \<Rightarrow> int) \<Rightarrow> ('d \<Rightarrow> 't) \<Rightarrow> ('d, 'ps, 'ss, 'bs, 'ms) callback_data_proto \<Rightarrow> model
     \<Rightarrow> error + ('t, 'ps, 'ss, 'bs, 'ms) callback_data"
where
  "parse_callback_data val to_timedelta cb_data mdl =
     (case Event val (pb_event cb_data) of
        Inl e \<Rightarrow> Inl e
      | Inr ev \<Rightarrow>
          (case (case primal_solution_vector cb_data of
                   None \<Rightarrow> Inr None
                 | Some primal_solution \<Rightarrow>
                     (case solution_of_pairs mdl
                             (zip (ids primal_solution) (vals primal_solution)) [] of
                        Inl e \<Rightarrow> Inl e
                      | Inr d \<Rightarrow> Inr (Some d))) of
             Inl e \<Rightarrow> Inl e
           | Inr sol \<Rightarrow>
               Inr \<lparr> event = ev,
                     solution = sol,
                     messages = [],
                     runtime = to_timedelta (pb_runtime cb_data),
                     presolve_stats = pb_presolve_stats cb_data,
                     simplex_stats = pb_simplex_stats cb_data,
                     barrier_stats = pb_barrier_stats cb_data,
                     mip_stats = pb_mip_stats cb_data \<rparr>))"

subsection \<open>Callback registration\<close>

text \<open>
  The two variable filters are values of \<^verbatim>\<open>sparse_containers.VariableFilter\<close>, a class
  that is not among the sources: a filter has the opaque type \<open>'f\<close>, its proto the type
  \<open>'fp\<close>, and its \<^verbatim>\<open>to_proto\<close> is the parameter \<open>filter_to_proto\<close>.
\<close>

record 'f callback_registration =
  events :: "event set"
  mip_solution_filter :: 'f
  mip_node_filter :: 'f
  add_cuts :: bool
  add_lazy_constraints :: bool

record 'fp callback_registration_proto =
  request_registration :: "int list"
  pb_mip_solution_filter :: 'fp
  pb_mip_node_filter :: 'fp
  pb_add_cuts :: bool
  pb_add_lazy_constraints :: bool

text \<open>
  \<^verbatim>\<open>CallbackRegistration.to_proto\<close>. The comprehension
  \<^verbatim>\<open>[event.value for event in self.events]\<close> visits every member of the set once, in an
  order that Python does not fix: what it builds is the multiset of the values, and
  \<^verbatim>\<open>sorted\<close> lists that multiset in increasing order.
\<close>

definition CallbackRegistration_to_proto ::
  "(event \<Rightarrow> int) \<Rightarrow> ('f \<Rightarrow> 'fp) \<Rightarrow> 'f callback_registration \<Rightarrow> 'fp callback_registration_proto"
where
  "CallbackRegistration_to_proto val filter_to_proto self =
     \<lparr> request_registration = sorted_list_of_multiset (image_mset val (mset_set (events self))),
       pb_mip_solution_filter = filter_to_proto (mip_solution_filter self),
       pb_mip_node_filter = filter_to_proto (mip_node_filter self),
       pb_add_cuts = add_cuts self,
       pb_add_lazy_constraints = add_lazy_constraints self \<rparr>"

subsection \<open>Linear expressions and inequalities\<close>

text \<open>
  Modelled from the spec: the expression builder of
  \<^verbatim>\<open>ortools/math_opt/python/model.py\<close>, which is not among the sources. The design
  describes it as an expression-builder type whose inequalities are composed into a
  triple of lower bound, terms and upper bound; the terms are a mapping from variables
  to coefficients with unique variables, and the triple stands for
  \<open>lb \<le> \<Sum> terms[v] * v \<le> ub\<close>. So an expression is its terms and its constant
  offset, and the sum of two expressions adds the coefficients of a variable that
  occurs in both.
\<close>

record linear_expression =
  expr_terms :: "(variable, pyfloat) dict"
  expr_offset :: pyfloat

definition var_expr :: "variable \<Rightarrow> linear_expression" where
  "var_expr x = \<lparr> expr_terms = [(x, Fin 1)], expr_offset = Fin 0 \<rparr>"

definition const_expr :: "pyfloat \<Rightarrow> linear_expression" where
  "const_expr c = \<lparr> expr_terms = [], expr_offset = c \<rparr>"

definition add_term :: "variable \<times> pyfloat \<Rightarrow> (variable, pyfloat) dict \<Rightarrow> (variable, pyfloat) dict" where
  "add_term t d =
     (case map_of d (fst t) of
        None \<Rightarrow> AList.update (fst t) (snd t) d
      | Some c \<Rightarrow> AList.update (fst t) (float_add c (snd t)) d)"

definition expr_add :: "linear_expression \<Rightarrow> linear_expression \<Rightarrow> linear_expression" where
  "expr_add e1 e2 =
     \<lparr> expr_terms = fold add_term (expr_terms e2) (expr_terms e1),
       expr_offset = float_add (expr_offset e1) (expr_offset e2) \<rparr>"

text \<open>
  The three shapes of a bounded inequality: \<open>lb \<le> e\<close> (also written \<open>e \<ge> lb\<close>),
  \<open>e \<le> ub\<close>, and the two-sided \<open>lb \<le> e \<le> ub\<close>.
\<close>

datatype bounded_expr =
    LowerBounded pyfloat linear_expression
  | UpperBounded linear_expression pyfloat
  | TwoSided pyfloat linear_expression pyfloat

record normalized_linear_inequality =
  lb :: pyfloat
  ub :: pyfloat
  coefficients :: "(variable, pyfloat) dict"

text \<open>
  Modelled from the spec: the constructor of the normalised inequality (in
  \<^verbatim>\<open>model.py\<close>). An expression whose constant offset is infinite fails with an
  invalid-bound error; otherwise the offset is folded into both bounds.
\<close>

definition NormalizedLinearInequality ::
  "pyfloat \<Rightarrow> pyfloat \<Rightarrow> linear_expression \<Rightarrow> error + normalized_linear_inequality"
where
  "NormalizedLinearInequality l u e =
     (if isinf (expr_offset e) then Inl InvalidConstraintBound
      else Inr \<lparr> lb = float_sub l (expr_offset e),
                 ub = float_sub u (expr_offset e),
                 coefficients = expr_terms e \<rparr>)"

text \<open>
  Modelled from the spec: \<^verbatim>\<open>model.as_normalized_linear_inequality\<close> (in \<^verbatim>\<open>model.py\<close>).
  Two call shapes exclude each other: (a) one bounded inequality, or (b) explicit lower
  bound, upper bound and expression, each of which may be omitted (a missing lower bound
  is minus infinity, a missing upper bound is plus infinity, a missing expression is the
  zero expression). Shape (a) together with any field of shape (b) fails with an
  ambiguous-constraint-specification error.
\<close>

definition as_normalized_linear_inequality ::
  "bounded_expr option \<Rightarrow> pyfloat option \<Rightarrow> pyfloat option \<Rightarrow> linear_expression option
     \<Rightarrow> error + normalized_linear_inequality"
where
  "as_normalized_linear_inequality bounded l u e =
     (case bounded of
        None \<Rightarrow>
          NormalizedLinearInequality
            (case l of None \<Rightarrow> NegInf | Some l' \<Rightarrow> l')
            (case u of None \<Rightarrow> PosInf | Some u' \<Rightarrow> u')
            (case e of None \<Rightarrow> const_expr (Fin 0) | Some e' \<Rightarrow> e')
      | Some b \<Rightarrow>
          if l \<noteq> None \<or> u \<noteq> None \<or> e \<noteq> None then Inl AmbiguousConstraintSpecification
          else (case b of
                  LowerBounded l' e' \<Rightarrow> NormalizedLinearInequality l' PosInf e'
                | UpperBounded e' u' \<Rightarrow> NormalizedLinearInequality NegInf u' e'
                | TwoSided l' e' u' \<Rightarrow> NormalizedLinearInequality l' u' e'))"

subsection \<open>Generated constraints and the callback result\<close>

record generated_constraint =
  terms :: "(variable, pyfloat) dict"
  lower_bound :: pyfloat
  upper_bound :: pyfloat
  is_lazy :: bool

record callback_result =
  terminate :: bool
  generated_constraints :: "generated_constraint list"
  suggested_solutions :: "(variable, pyfloat) dict list"

text \<open>
  \<^verbatim>\<open>CallbackResult.add_generated_constraint\<close>. The method changes \<^verbatim>\<open>self\<close> and returns
  nothing, or raises what the normalisation raises: the model returns the result
  object as the call leaves it, together with the error raised, if any. The
  normalisation runs before the list is touched.
\<close>

definition add_generated_constraint ::
  "callback_result \<Rightarrow> bounded_expr option \<Rightarrow> pyfloat option \<Rightarrow> pyfloat option
     \<Rightarrow> linear_expression option \<Rightarrow> bool \<Rightarrow> callback_result \<times> error option"
where
  "add_generated_constraint self bounded l u e lazy =
     (case as_normalized_linear_inequality bounded l u e of
        Inl err \<Rightarrow> (self, Some err)
      | Inr normalized_inequality \<Rightarrow>
          (self\<lparr> generated_constraints :=
                   generated_constraints self @
                     [\<lparr> terms = coefficients normalized_inequality,
                        lower_bound = lb normalized_inequality,
                        upper_bound = ub normalized_inequality,
                        is_lazy = lazy \<rparr>] \<rparr>,
           None))"

definition add_lazy_constraint ::
  "callback_result \<Rightarrow> bounded_expr option \<Rightarrow> pyfloat option \<Rightarrow> pyfloat option
     \<Rightarrow> linear_expression option \<Rightarrow> callback_result \<times> error option"
where
  "add_lazy_constraint self bounded l u e = add_generated_constraint self bounded l u e True"

definition add_user_cut ::
  "callback_result \<Rightarrow> bounded_expr option \<Rightarrow> pyfloat option \<Rightarrow> pyfloat option
     \<Rightarrow> linear_expression option \<Rightarrow> callback_result \<times> error option"
where
  "add_user_cut self bounded l u e = add_generated_constraint self bounded l u e False"

subsection \<open>The wire form of a result\<close>

text \<open>
  Modelled from the spec: \<^verbatim>\<open>sparse_containers.to_sparse_double_vector_proto\<close>, which is
  not among the sources. The design calls it \<open>encode\<close>: the inverse of decoding, which
  produces the ids sorted or in insertion order, whichever the wire format requires,
  with no duplicate ids. The order is the parameter \<open>ord\<close>.
\<close>

datatype wire_order = SortedById | InsertionOrder

definition to_sparse_double_vector_proto ::
  "wire_order \<Rightarrow> (variable, pyfloat) dict \<Rightarrow> sparse_double_vector_proto"
where
  "to_sparse_double_vector_proto ord d =
     (let entries = (case ord of
                       InsertionOrder \<Rightarrow> d
                     | SortedById \<Rightarrow> sort_key (\<lambda>kv. var_id (fst kv)) d)
      in \<lparr> ids = map (\<lambda>kv. var_id (fst kv)) entries, vals = map snd entries \<rparr>)"

record generated_linear_constraint_proto =
  pb_is_lazy :: bool
  pb_lower_bound :: pyfloat
  pb_upper_bound :: pyfloat
  linear_expression :: sparse_double_vector_proto

record callback_result_proto =
  pb_terminate :: bool
  cuts :: "generated_linear_constraint_proto list"
  pb_suggested_solutions :: "sparse_double_vector_proto list"

definition GeneratedConstraint_to_proto ::
  "wire_order \<Rightarrow> generated_constraint \<Rightarrow> generated_linear_constraint_proto"
where
  "GeneratedConstraint_to_proto ord self =
     \<lparr> pb_is_lazy = is_lazy self,
       pb_lower_bound = lower_bound self,
       pb_upper_bound = upper_bound self,
       linear_expression = to_sparse_double_vector_proto ord (terms self) \<rparr>"

definition CallbackResult_to_proto :: "wire_order \<Rightarrow> callback_result \<Rightarrow> callback_result_proto" where
  "CallbackResult_to_proto ord self =
     \<lparr> pb_terminate = terminate self,
       cuts = map (GeneratedConstraint_to_proto ord) (generated_constraints self),
       pb_suggested_solutions =
         map (to_sparse_double_vector_proto ord) (suggested_solutions self) \<rparr>"

section \<open>Concrete inputs\<close>

text \<open>
  Payloads of a MIP_SOLUTION event (code 4 in the proto file) with the ids 1 and 99:
  one with a value for each id, one whose value sequence is one short. The opaque
  blocks are the unit value and the runtime is a number that is passed on unchanged.
\<close>

definition payload_full :: "(nat, unit, unit, unit, unit) callback_data_proto" where
  "payload_full =
     \<lparr> pb_event = 4,
       primal_solution_vector = Some \<lparr> ids = [1, 99], vals = [Fin (1 / 2), Fin 3] \<rparr>,
       pb_runtime = 7, pb_presolve_stats = (), pb_simplex_stats = (),
       pb_barrier_stats = (), pb_mip_stats = () \<rparr>"

definition payload_short :: "(nat, unit, unit, unit, unit) callback_data_proto" where
  "payload_short =
     \<lparr> pb_event = 4,
       primal_solution_vector = Some \<lparr> ids = [1, 99], vals = [Fin (1 / 2)] \<rparr>,
       pb_runtime = 7, pb_presolve_stats = (), pb_simplex_stats = (),
       pb_barrier_stats = (), pb_mip_stats = () \<rparr>"

text \<open>A model that owns variable 1 only, and one that owns 1 and 99.\<close>

definition model_one :: model where
  "model_one = \<lparr> variable_ids = {1} \<rparr>"

definition model_both :: model where
  "model_both = \<lparr> variable_ids = {1, 99} \<rparr>"

text \<open>A result that nothing has been added to; two variables.\<close>

definition empty_result :: callback_result where
  "empty_result = \<lparr> terminate = False, generated_constraints = [], suggested_solutions = [] \<rparr>"

definition var_x :: variable where
  "var_x = Variable 0"

definition var_y :: variable where
  "var_y = Variable 1"

text \<open>
  A registration for three events that allows cuts but no lazy constraints, and a
  result that carries one lazy constraint, \<open>x + y \<ge> 2\<close>.
\<close>

definition cuts_only_registration :: "unit callback_registration" where
  "cuts_only_registration =
     \<lparr> events = {MIP_NODE, PRESOLVE, MIP_SOLUTION}, mip_solution_filter = (),
       mip_node_filter = (), add_cuts = True, add_lazy_constraints = False \<rparr>"

definition lazy_constraint :: generated_constraint where
  "lazy_constraint =
     \<lparr> terms = [(var_x, Fin 1), (var_y, Fin 1)], lower_bound = Fin 2, upper_bound = PosInf,
       is_lazy = True \<rparr>"

definition lazy_result :: callback_result where
  "lazy_result =
     \<lparr> terminate = True, generated_constraints = [lazy_constraint], suggested_solutions = [] \<rparr>"

section \<open>Properties of parsing\<close>

lemma Event_of_member: "\<exists>e'. Event val (val e) = Inr e'"
proof -
  have "e \<in> set all_events"
    by (cases e) (simp_all add: all_events_def)
  then have "find (\<lambda>e'. val e' = val e) all_events \<noteq> None"
    by (auto simp: find_None_iff)
  then show ?thesis
    by (auto simp: Event_def)
qed

lemma solution_of_pairs_resolved:
  "fst ` set ps \<subseteq> variable_ids mdl \<Longrightarrow>
   solution_of_pairs mdl ps d = Inr (fold (\<lambda>(i, v) d. AList.update (Variable i) v d) ps d)"
  by (induction ps arbitrary: d) (auto simp: get_variable_def)

lemma solution_of_pairs_unknown:
  "(i, v) \<in> set ps \<Longrightarrow> i \<notin> variable_ids mdl \<Longrightarrow>
   solution_of_pairs mdl ps d = Inl UnknownVariableIdentifier"
proof (induction ps arbitrary: d)
  case Nil
  then show ?case by simp
next
  case (Cons p ps)
  obtain j w where p: "p = (j, w)" by (cases p)
  show ?case
  proof (cases "j \<in> variable_ids mdl")
    case True
    with Cons.prems p have "(i, v) \<in> set ps" by auto
    then have "solution_of_pairs mdl ps (AList.update (Variable j) w d)
                 = Inl UnknownVariableIdentifier"
      using Cons.prems(2) by (rule Cons.IH)
    with True show ?thesis by (simp add: p get_variable_def)
  next
    case False
    then show ?thesis by (simp add: p get_variable_def)
  qed
qed

lemma fold_update_fresh:
  "distinct (map fst ps) \<Longrightarrow> Variable ` fst ` set ps \<inter> fst ` set d = {} \<Longrightarrow>
   fold (\<lambda>(i, v) d. AList.update (Variable i) v d) ps d = d @ map (\<lambda>(i, v). (Variable i, v)) ps"
proof (induction ps arbitrary: d)
  case Nil
  then show ?case by simp
next
  case (Cons p ps)
  obtain i v where p: "p = (i, v)" by (cases p)
  from Cons.prems have fresh: "Variable i \<notin> fst ` set d" by (auto simp: p)
  then have upd: "AList.update (Variable i) v d = d @ [(Variable i, v)]"
    by (induction d) auto
  from Cons.prems have "distinct (map fst ps)" and
    "Variable ` fst ` set ps \<inter> fst ` set (d @ [(Variable i, v)]) = {}"
    by (auto simp: p)
  then have "fold (\<lambda>(i, v) d. AList.update (Variable i) v d) ps (d @ [(Variable i, v)])
               = (d @ [(Variable i, v)]) @ map (\<lambda>(i, v). (Variable i, v)) ps"
    by (rule Cons.IH)
  then show ?case by (simp add: p upd)
qed


lemma fold_update_map:
  "fold (\<lambda>(k, v) d. AList.update k v d) (map (\<lambda>(i, v). (Variable i, v)) ps) d
     = fold (\<lambda>(i, v) d. AList.update (Variable i) v d) ps d"
  by (induction ps arbitrary: d) auto

lemma dict_display_pairs:
  "dict_display (map (\<lambda>(i, v). (Variable i, v)) ps)
     = fold (\<lambda>(i, v) d. AList.update (Variable i) v d) ps []"
  by (simp add: dict_display_def fold_update_map)

lemma parse_with_vector:
  assumes ev: "Event val (pb_event cb_data) = Inr e"
    and vec: "primal_solution_vector cb_data = Some v"
    and res: "solution_of_pairs mdl (zip (ids v) (vals v)) [] = Inr d"
  shows "parse_callback_data val td cb_data mdl =
           Inr \<lparr> event = e, solution = Some d, messages = [],
                 runtime = td (pb_runtime cb_data),
                 presolve_stats = pb_presolve_stats cb_data,
                 simplex_stats = pb_simplex_stats cb_data,
                 barrier_stats = pb_barrier_stats cb_data,
                 mip_stats = pb_mip_stats cb_data \<rparr>"
  by (simp add: parse_callback_data_def ev vec res)

lemma parse_payload_short_model_one:
  "parse_callback_data proto_value (\<lambda>d. d) payload_short model_one =
     Inr \<lparr> event = MIP_SOLUTION, solution = Some [(Variable 1, Fin (1 / 2))], messages = [],
           runtime = 7, presolve_stats = (), simplex_stats = (), barrier_stats = (),
           mip_stats = () \<rparr>"
  by (simp add: parse_callback_data_def payload_short_def model_one_def Event_def
        all_events_def get_variable_def)

lemma parse_payload_short_model_both:
  "parse_callback_data proto_value (\<lambda>d. d) payload_short model_both =
     Inr \<lparr> event = MIP_SOLUTION, solution = Some [(Variable 1, Fin (1 / 2))], messages = [],
           runtime = 7, presolve_stats = (), simplex_stats = (), barrier_stats = (),
           mip_stats = () \<rparr>"
  by (simp add: parse_callback_data_def payload_short_def model_both_def Event_def
        all_events_def get_variable_def)

lemma parse_payload_full_model_both:
  "parse_callback_data proto_value (\<lambda>d. d) payload_full model_both =
     Inr \<lparr> event = MIP_SOLUTION,
           solution = Some [(Variable 1, Fin (1 / 2)), (Variable 99, Fin 3)], messages = [],
           runtime = 7, presolve_stats = (), simplex_stats = (), barrier_stats = (),
           mip_stats = () \<rparr>"
  by (simp add: parse_callback_data_def payload_full_def model_both_def Event_def
        all_events_def get_variable_def)

lemma parse_payload_full_model_one:
  "parse_callback_data proto_value (\<lambda>d. d) payload_full model_one =
     Inl UnknownVariableIdentifier"
  by (simp add: parse_callback_data_def payload_full_def model_one_def Event_def
        all_events_def get_variable_def)

subsection \<open>An identifier that the model does not know\<close>

text \<open>
  C1: an id of the primal-solution vector that the model does not own must make
  \<open>parse_callback_data\<close> fail, as its docstring promises (\<^verbatim>\<open>ValueError\<close> if \<^verbatim>\<open>cb_data\<close>
  is invalid or refers to a variable id not in \<^verbatim>\<open>mod\<close>). The code does not keep the
  promise for the payload \<open>payload_short\<close>: it names the id 99, which the model
  \<open>model_one\<close> does not own, it has fewer values than ids, and still
  \<open>parse_callback_data\<close> returns a CallbackData, whose solution holds the resolvable
  id 1 only. The id 99 has no partner in the shorter value sequence, so \<^verbatim>\<open>zip\<close> never
  hands it to the lookup, and nothing compares the two lengths.
\<close>

theorem parse_callback_data_surplus_id_unchecked:
  "primal_solution_vector payload_short = Some \<lparr> ids = [1, 99], vals = [Fin (1 / 2)] \<rparr> \<and>
   99 \<in> set [1, 99 :: int] \<and> 99 \<notin> variable_ids model_one \<and>
   parse_callback_data proto_value (\<lambda>d. d) payload_short model_one =
     Inr \<lparr> event = MIP_SOLUTION, solution = Some [(Variable 1, Fin (1 / 2))], messages = [],
           runtime = 7, presolve_stats = (), simplex_stats = (), barrier_stats = (),
           mip_stats = () \<rparr>"
  by (simp add: parse_payload_short_model_one) (simp add: payload_short_def model_one_def)

text \<open>
  An unknown id at a position that \<^verbatim>\<open>zip\<close> reaches does end the parse: nothing is
  returned, and the error is the unknown-identifier error whenever the event code is the
  value of a member (otherwise \<^verbatim>\<open>Event(...)\<close> has raised before).
\<close>

lemma parse_callback_data_unknown_id_reached:
  assumes vec: "primal_solution_vector cb_data = Some v"
    and pos: "n < min (length (ids v)) (length (vals v))"
    and unknown: "ids v ! n \<notin> variable_ids mdl"
  shows "(\<exists>e. parse_callback_data val td cb_data mdl = Inl e) \<and>
         ((\<exists>ev. val ev = pb_event cb_data) \<longrightarrow>
            parse_callback_data val td cb_data mdl = Inl UnknownVariableIdentifier)"
proof -
  from pos have "(ids v ! n, vals v ! n) \<in> set (zip (ids v) (vals v))"
    by (auto simp: set_zip)
  then have res: "solution_of_pairs mdl (zip (ids v) (vals v)) [] = Inl UnknownVariableIdentifier"
    using unknown by (rule solution_of_pairs_unknown)
  show ?thesis
  proof (cases "Event val (pb_event cb_data)")
    case (Inl e)
    then have fails: "parse_callback_data val td cb_data mdl = Inl e"
      by (simp add: parse_callback_data_def)
    have "\<not> (\<exists>ev. val ev = pb_event cb_data)"
    proof
      assume "\<exists>ev. val ev = pb_event cb_data"
      then obtain ev where "val ev = pb_event cb_data" ..
      with Event_of_member [of val ev] Inl show False by simp
    qed
    with fails show ?thesis by simp
  next
    case (Inr e)
    then show ?thesis
      by (simp add: parse_callback_data_def vec res)
  qed
qed

text \<open>
  So for a vector with as many values as ids, the shape the design requires of the
  decoder's input, every unknown id makes the parse fail with the unknown-identifier
  error.
\<close>

lemma parse_callback_data_unknown_id_equal_lengths:
  assumes code: "\<exists>ev. val ev = pb_event cb_data"
    and vec: "primal_solution_vector cb_data = Some v"
    and len: "length (ids v) = length (vals v)"
    and i: "i \<in> set (ids v)"
    and unknown: "i \<notin> variable_ids mdl"
  shows "parse_callback_data val td cb_data mdl = Inl UnknownVariableIdentifier"
proof -
  from i obtain n where n: "n < length (ids v)" "ids v ! n = i"
    by (auto simp: in_set_conv_nth)
  with len have pos: "n < min (length (ids v)) (length (vals v))"
    by simp
  from n unknown have "ids v ! n \<notin> variable_ids mdl"
    by simp
  with parse_callback_data_unknown_id_reached [OF vec pos] code show ?thesis
    by blast
qed

subsection \<open>The solution of a MIP_SOLUTION event\<close>

text \<open>
  C2: when the event code is that of MIP_SOLUTION and the primal-solution vector is
  present, with pairwise distinct ids that the model all owns and as many values as ids,
  \<open>parse_callback_data\<close> returns a CallbackData whose solution has exactly the
  variables of those ids as keys and as many entries as the vector is long.
\<close>

theorem parse_callback_data_mip_solution:
  assumes code: "pb_event cb_data = val MIP_SOLUTION"
    and vec: "primal_solution_vector cb_data = Some v"
    and dist: "distinct (ids v)"
    and known: "set (ids v) \<subseteq> variable_ids mdl"
    and len: "length (ids v) = length (vals v)"
  shows "\<exists>r d. parse_callback_data val td cb_data mdl = Inr r \<and> solution r = Some d \<and>
               set (map fst d) = Variable ` set (ids v) \<and> distinct (map fst d) \<and>
               length d = length (ids v)"
proof -
  from Event_of_member [of val MIP_SOLUTION] code
  obtain e where ev: "Event val (pb_event cb_data) = Inr e" by auto
  let ?ps = "zip (ids v) (vals v)"
  have fst_ps: "map fst ?ps = ids v"
    using len by simp
  then have keys: "fst ` set ?ps = set (ids v)"
    by (metis set_map)
  with known have "fst ` set ?ps \<subseteq> variable_ids mdl" by simp
  then have "solution_of_pairs mdl ?ps []
               = Inr (fold (\<lambda>(i, v) d. AList.update (Variable i) v d) ?ps [])"
    by (rule solution_of_pairs_resolved)
  moreover have "fold (\<lambda>(i, v) d. AList.update (Variable i) v d) ?ps []
                   = [] @ map (\<lambda>(i, v). (Variable i, v)) ?ps"
    by (rule fold_update_fresh) (simp_all add: fst_ps dist)
  ultimately have res: "solution_of_pairs mdl ?ps [] = Inr (map (\<lambda>(i, v). (Variable i, v)) ?ps)"
    by simp
  have "map fst (map (\<lambda>(i, v). (Variable i, v)) ?ps) = map Variable (map fst ?ps)"
    by (simp add: case_prod_unfold comp_def)
  then have k: "map fst (map (\<lambda>(i, v). (Variable i, v)) ?ps) = map Variable (ids v)"
    by (simp only: fst_ps)
  have keys_d: "set (map fst (map (\<lambda>(i, v). (Variable i, v)) ?ps)) = Variable ` set (ids v)"
    by (simp only: k set_map)
  have dist_d: "distinct (map fst (map (\<lambda>(i, v). (Variable i, v)) ?ps))"
    using dist by (simp only: k) (simp add: distinct_map inj_on_def)
  have len_d: "length (map (\<lambda>(i, v). (Variable i, v)) ?ps) = length (ids v)"
    using len by simp
  have sol: "solution \<lparr> event = e, solution = Some (map (\<lambda>(i, v). (Variable i, v)) ?ps),
                 messages = [], runtime = td (pb_runtime cb_data),
                 presolve_stats = pb_presolve_stats cb_data,
                 simplex_stats = pb_simplex_stats cb_data,
                 barrier_stats = pb_barrier_stats cb_data,
                 mip_stats = pb_mip_stats cb_data \<rparr>
               = Some (map (\<lambda>(i, v). (Variable i, v)) ?ps)"
    by simp
  from parse_with_vector [OF ev vec res, of td] sol keys_d dist_d len_d
  show ?thesis by blast
qed

theorem parse_callback_data_mip_solution_witness:
  "pb_event payload_full = proto_value MIP_SOLUTION \<and>
   primal_solution_vector payload_full = Some \<lparr> ids = [1, 99], vals = [Fin (1 / 2), Fin 3] \<rparr> \<and>
   distinct [1, 99 :: int] \<and> set [1, 99] \<subseteq> variable_ids model_both \<and>
   length [1, 99 :: int] = length [Fin (1 / 2), Fin 3] \<and>
   (\<exists>r d. parse_callback_data proto_value (\<lambda>d. d) payload_full model_both = Inr r \<and>
          solution r = Some d \<and> set (map fst d) = Variable ` set [1, 99] \<and>
          distinct (map fst d) \<and> length d = length [1, 99 :: int])"
proof -
  have code: "pb_event payload_full = proto_value MIP_SOLUTION"
    by (simp add: payload_full_def)
  have vec: "primal_solution_vector payload_full
               = Some \<lparr> ids = [1, 99], vals = [Fin (1 / 2), Fin 3] \<rparr>"
    by (simp add: payload_full_def)
  have dist: "distinct (ids \<lparr> ids = [1, 99], vals = [Fin (1 / 2), Fin 3] \<rparr>)"
    by simp
  have known: "set (ids \<lparr> ids = [1, 99], vals = [Fin (1 / 2), Fin 3] \<rparr>) \<subseteq> variable_ids model_both"
    by (simp add: model_both_def)
  have len: "length (ids \<lparr> ids = [1, 99], vals = [Fin (1 / 2), Fin 3] \<rparr>)
               = length (vals \<lparr> ids = [1, 99], vals = [Fin (1 / 2), Fin 3] \<rparr>)"
    by simp
  from parse_callback_data_mip_solution [where val = proto_value and td = "\<lambda>d. d", OF code vec dist known len]
  have "\<exists>r d. parse_callback_data proto_value (\<lambda>d. d) payload_full model_both = Inr r \<and>
          solution r = Some d \<and> set (map fst d) = Variable ` set [1, 99] \<and>
          distinct (map fst d) \<and> length d = length [1, 99 :: int]"
    by simp
  with code vec show ?thesis
    by (simp add: model_both_def)
qed

subsection \<open>Sequences of different lengths\<close>

text \<open>
  C9: when the event code is the value of one of the seven members and every id of the
  primal-solution vector is owned by the model, \<open>parse_callback_data\<close> returns a
  CallbackData, also when there are more ids than values or more values than ids; its
  solution is the dictionary of the first \<open>min (len ids) (len values)\<close> pairs, and the
  rest of the longer sequence is dropped.
\<close>

theorem parse_callback_data_truncates:
  assumes code: "\<exists>e. val e = pb_event cb_data"
    and vec: "primal_solution_vector cb_data = Some v"
    and known: "set (ids v) \<subseteq> variable_ids mdl"
  shows "\<exists>r. parse_callback_data val td cb_data mdl = Inr r \<and>
             solution r =
               Some (dict_display
                       (map (\<lambda>(i, x). (Variable i, x))
                          (zip (take (min (length (ids v)) (length (vals v))) (ids v))
                               (take (min (length (ids v)) (length (vals v))) (vals v)))))"
proof -
  from code obtain e0 where "val e0 = pb_event cb_data" by blast
  with Event_of_member [of val e0] obtain e where ev: "Event val (pb_event cb_data) = Inr e"
    by auto
  let ?ps = "zip (ids v) (vals v)"
  have "fst ` set ?ps \<subseteq> set (ids v)"
    by (auto dest: set_zip_leftD)
  with known have "fst ` set ?ps \<subseteq> variable_ids mdl" by blast
  then have res: "solution_of_pairs mdl ?ps []
                    = Inr (fold (\<lambda>(i, v) d. AList.update (Variable i) v d) ?ps [])"
    by (rule solution_of_pairs_resolved)
  have cut: "zip (take (min (length (ids v)) (length (vals v))) (ids v))
                 (take (min (length (ids v)) (length (vals v))) (vals v)) = ?ps"
    by (simp add: take_zip [symmetric])
  show ?thesis
    by (simp add: parse_with_vector [OF ev vec res] cut dict_display_pairs)
qed

theorem parse_callback_data_truncates_witness:
  "(\<exists>e. proto_value e = pb_event payload_short) \<and>
   primal_solution_vector payload_short = Some \<lparr> ids = [1, 99], vals = [Fin (1 / 2)] \<rparr> \<and>
   set [1, 99] \<subseteq> variable_ids model_both \<and>
   length [1, 99 :: int] \<noteq> length [Fin (1 / 2)] \<and>
   (\<exists>r. parse_callback_data proto_value (\<lambda>d. d) payload_short model_both = Inr r \<and>
        solution r = Some [(Variable 1, Fin (1 / 2))])"
proof -
  have code: "\<exists>e. proto_value e = pb_event payload_short"
    by (rule exI [of _ MIP_SOLUTION]) (simp add: payload_short_def)
  have vec: "primal_solution_vector payload_short = Some \<lparr> ids = [1, 99], vals = [Fin (1 / 2)] \<rparr>"
    by (simp add: payload_short_def)
  have known: "set (ids \<lparr> ids = [1, 99], vals = [Fin (1 / 2)] \<rparr>) \<subseteq> variable_ids model_both"
    by (simp add: model_both_def)
  from parse_callback_data_truncates [where val = proto_value and td = "\<lambda>d. d", OF code vec known]
  have "\<exists>r. parse_callback_data proto_value (\<lambda>d. d) payload_short model_both = Inr r \<and>
          solution r = Some [(Variable 1, Fin (1 / 2))]"
    by (simp add: dict_display_def)
  with code vec show ?thesis
    by (simp add: model_both_def)
qed

subsection \<open>Messages\<close>

text \<open>
  C10: whatever the payload and the model, a CallbackData that \<open>parse_callback_data\<close>
  returns has the empty list as its \<open>messages\<close>.
\<close>

theorem parse_callback_data_messages_empty:
  "parse_callback_data val to_timedelta cb_data mdl = Inr r \<Longrightarrow> messages r = []"
  by (auto simp: parse_callback_data_def split: sum.splits option.splits)

theorem parse_callback_data_messages_empty_witness:
  "parse_callback_data proto_value (\<lambda>d. d) payload_full model_both =
     Inr \<lparr> event = MIP_SOLUTION,
           solution = Some [(Variable 1, Fin (1 / 2)), (Variable 99, Fin 3)], messages = [],
           runtime = 7, presolve_stats = (), simplex_stats = (), barrier_stats = (),
           mip_stats = () \<rparr> \<and>
   messages \<lparr> event = MIP_SOLUTION,
           solution = Some [(Variable 1, Fin (1 / 2)), (Variable 99, Fin 3)], messages = [],
           runtime = 7 :: nat, presolve_stats = (), simplex_stats = (), barrier_stats = (),
           mip_stats = () \<rparr> = []"
  using parse_callback_data_messages_empty [OF parse_payload_full_model_both]
    parse_payload_full_model_both
  by simp

section \<open>Decoding and encoding a solution\<close>

lemma encode_insertion:
  assumes "length is = length vs"
  shows "to_sparse_double_vector_proto InsertionOrder (map (\<lambda>(i, v). (Variable i, v)) (zip is vs))
           = \<lparr> ids = is, vals = vs \<rparr>"
proof -
  have "map (\<lambda>kv. var_id (fst kv)) (map (\<lambda>(i, v). (Variable i, v)) (zip is vs)) = map fst (zip is vs)"
    by (simp add: case_prod_unfold comp_def)
  moreover have "map snd (map (\<lambda>(i, v). (Variable i, v)) (zip is vs)) = map snd (zip is vs)"
    by (simp add: case_prod_unfold comp_def)
  ultimately show ?thesis
    using assms by (simp add: to_sparse_double_vector_proto_def)
qed

lemma encode_pairs:
  "zip (ids (to_sparse_double_vector_proto ord d)) (vals (to_sparse_double_vector_proto ord d))
     = map (\<lambda>kv. (var_id (fst kv), snd kv))
         (case ord of InsertionOrder \<Rightarrow> d | SortedById \<Rightarrow> sort_key (\<lambda>kv. var_id (fst kv)) d)"
  by (simp add: to_sparse_double_vector_proto_def Let_def zip_map_map zip_same_conv_map
        split: wire_order.splits)

lemma insort_key_map_commute:
  "insort_key f (g x) (map g xs) = map g (insort_key (\<lambda>a. f (g a)) x xs)"
  by (induction xs) simp_all

lemma sort_key_map_commute:
  "sort_key f (map g xs) = map g (sort_key (\<lambda>a. f (g a)) xs)"
  by (induction xs) (simp_all add: insort_key_map_commute)

lemma encode_sorted_pairs:
  "zip (ids (to_sparse_double_vector_proto SortedById (map (\<lambda>(i, v). (Variable i, v)) ps)))
       (vals (to_sparse_double_vector_proto SortedById (map (\<lambda>(i, v). (Variable i, v)) ps)))
     = sort_key fst ps"
proof -
  have key: "(\<lambda>a. var_id (fst (case a of (i, v) \<Rightarrow> (Variable i, v)))) = (fst :: int \<times> pyfloat \<Rightarrow> int)"
    by (auto simp: fun_eq_iff)
  have "sort_key (\<lambda>kv. var_id (fst kv)) (map (\<lambda>(i, v). (Variable i, v)) ps)
          = map (\<lambda>(i, v). (Variable i, v)) (sort_key fst ps)"
    by (simp only: sort_key_map_commute key)
  then show ?thesis
    by (simp add: encode_pairs case_prod_unfold comp_def)
qed


text \<open>Sorting by id forgets the order in which pairs with distinct ids came.\<close>

lemma filter_same_key:
  "distinct (map fst xs) \<Longrightarrow> k \<in> set xs \<Longrightarrow> filter (\<lambda>x. fst k = fst x) xs = [k]"
proof (induction xs)
  case Nil
  then show ?case by simp
next
  case (Cons a xs)
  show ?case
  proof (cases "k = a")
    case True
    from Cons.prems(1) have "fst a \<notin> fst ` set xs" by simp
    then have "\<forall>x \<in> set xs. fst x \<noteq> fst a" by (metis imageI)
    then have "filter (\<lambda>x. fst a = fst x) xs = []"
      by (auto simp: filter_empty_conv)
    with True show ?thesis by simp
  next
    case False
    with Cons.prems have k: "k \<in> set xs" and "distinct (map fst xs)" by auto
    then have "filter (\<lambda>x. fst k = fst x) xs = [k]" using Cons.IH by blast
    moreover from Cons.prems(1) have "fst a \<notin> fst ` set xs" by simp
    with k have "fst k \<noteq> fst a" by (metis imageI)
    ultimately show ?thesis by simp
  qed
qed

lemma sort_key_fst_reordered:
  assumes "mset ps = mset qs" and "distinct (map fst ps)"
  shows "sort_key fst ps = sort_key fst (qs :: (int \<times> 'a) list)"
proof (rule properties_for_sort_key)
  show "mset (sort_key fst qs) = mset ps"
    using assms(1) by simp
  show "sorted (map fst (sort_key fst qs))"
    by simp
  fix k assume "k \<in> set (sort_key fst qs)"
  then have kq: "k \<in> set qs" by simp
  then have kp: "k \<in> set ps" using assms(1) by (metis mset_eq_setD)
  have "mset (map fst qs) = mset (map fst ps)"
    using assms(1) by (metis mset_map)
  then have dq: "distinct (map fst qs)"
    using assms(2) by (metis mset_eq_imp_distinct_iff)
  then have "distinct (map fst (sort_key fst qs))"
    by (metis distinct_map distinct_sort set_sort)
  then have "filter (\<lambda>x. fst k = fst x) (sort_key fst qs) = [k]"
    using kq by (intro filter_same_key) simp_all
  moreover have "filter (\<lambda>x. fst k = fst x) ps = [k]"
    using assms(2) kp by (rule filter_same_key)
  ultimately show "filter (\<lambda>x. fst k = fst x) (sort_key fst qs) = filter (\<lambda>x. fst k = fst x) ps"
    by simp
qed

text \<open>
  C3: a primal-solution vector with as many values as ids, pairwise distinct ids and
  ids that the model all owns is decoded by \<open>parse_callback_data\<close> into a solution;
  that solution, returned as a suggested solution and encoded by
  \<open>CallbackResult.to_proto\<close>, gives back the association of ids and values of the
  vector: the same pairs as a multiset and as a map, with no id twice. In insertion
  order the vector itself comes back; in sorted order the pairs come back sorted by id,
  and so does every reordering of them.
\<close>

theorem decode_encode_roundtrip:
  assumes code: "\<exists>e. val e = pb_event cb_data"
    and vec: "primal_solution_vector cb_data = Some v"
    and len: "length (ids v) = length (vals v)"
    and dist: "distinct (ids v)"
    and known: "set (ids v) \<subseteq> variable_ids mdl"
  shows "\<exists>r d. parse_callback_data val td cb_data mdl = Inr r \<and> solution r = Some d \<and>
           pb_suggested_solutions
               (CallbackResult_to_proto InsertionOrder
                  \<lparr> terminate = t, generated_constraints = gs, suggested_solutions = [d] \<rparr>)
             = [v] \<and>
           (\<forall>ord. \<exists>p. pb_suggested_solutions
                        (CallbackResult_to_proto ord
                           \<lparr> terminate = t, generated_constraints = gs, suggested_solutions = [d] \<rparr>)
                      = [p] \<and>
                    length (ids p) = length (vals p) \<and> distinct (ids p) \<and>
                    mset (zip (ids p) (vals p)) = mset (zip (ids v) (vals v)) \<and>
                    map_of (zip (ids p) (vals p)) = map_of (zip (ids v) (vals v)) \<and>
                    (ord = SortedById \<longrightarrow>
                       (\<forall>qs. mset qs = mset (zip (ids v) (vals v)) \<longrightarrow>
                             zip (ids p) (vals p) = sort_key fst qs)))"
proof -
  from code obtain e0 where "val e0 = pb_event cb_data" by blast
  with Event_of_member [of val e0] obtain e where ev: "Event val (pb_event cb_data) = Inr e"
    by auto
  let ?ps = "zip (ids v) (vals v)"
  let ?d = "map (\<lambda>(i, v). (Variable i, v)) ?ps"
  have fst_ps: "map fst ?ps = ids v"
    using len by simp
  then have "fst ` set ?ps = set (ids v)"
    by (metis set_map)
  with known have "fst ` set ?ps \<subseteq> variable_ids mdl" by simp
  then have "solution_of_pairs mdl ?ps []
               = Inr (fold (\<lambda>(i, v) d. AList.update (Variable i) v d) ?ps [])"
    by (rule solution_of_pairs_resolved)
  moreover have "fold (\<lambda>(i, v) d. AList.update (Variable i) v d) ?ps [] = [] @ ?d"
    by (rule fold_update_fresh) (simp_all add: fst_ps dist)
  ultimately have res: "solution_of_pairs mdl ?ps [] = Inr ?d"
    by simp
  note parsed = parse_with_vector [OF ev vec res, of td]
  have ins: "to_sparse_double_vector_proto InsertionOrder ?d = v"
    using encode_insertion [OF len] by simp
  have enc: "\<exists>p. to_sparse_double_vector_proto ord ?d = p \<and>
               length (ids p) = length (vals p) \<and> distinct (ids p) \<and>
               mset (zip (ids p) (vals p)) = mset ?ps \<and>
               map_of (zip (ids p) (vals p)) = map_of ?ps \<and>
               (ord = SortedById \<longrightarrow>
                  (\<forall>qs. mset qs = mset ?ps \<longrightarrow> zip (ids p) (vals p) = sort_key fst qs))" for ord
  proof (cases ord)
    case InsertionOrder
    with ins len dist show ?thesis by simp
  next
    case SortedById
    let ?p = "to_sparse_double_vector_proto SortedById ?d"
    have pairs: "zip (ids ?p) (vals ?p) = sort_key fst ?ps"
      by (rule encode_sorted_pairs)
    have l: "length (ids ?p) = length (vals ?p)"
      by (simp add: to_sparse_double_vector_proto_def Let_def)
    then have "ids ?p = map fst (zip (ids ?p) (vals ?p))"
      by simp
    then have idsp: "ids ?p = map fst (sort_key fst ?ps)"
      by (simp only: pairs)
    have "mset (map fst (sort_key fst ?ps)) = mset (map fst ?ps)"
      by simp
    then have "mset (map fst (sort_key fst ?ps)) = mset (ids v)"
      by (simp only: fst_ps)
    then have d: "distinct (ids ?p)"
      using dist idsp by (metis mset_eq_imp_distinct_iff)
    have m: "mset (zip (ids ?p) (vals ?p)) = mset ?ps"
      by (simp add: pairs)
    have mo: "map_of (zip (ids ?p) (vals ?p)) = map_of ?ps"
    proof (rule iffD2 [OF map_of_inject_set])
      show "distinct (map fst (zip (ids ?p) (vals ?p)))"
        using d l by simp
      show "distinct (map fst ?ps)"
        using dist fst_ps by simp
      show "set (zip (ids ?p) (vals ?p)) = set ?ps"
        using m by (rule mset_eq_setD)
    qed
    have al: "\<forall>qs. mset qs = mset ?ps \<longrightarrow> zip (ids ?p) (vals ?p) = sort_key fst qs"
    proof (intro allI impI)
      fix qs :: "(int \<times> pyfloat) list"
      assume "mset qs = mset ?ps"
      then have "mset ?ps = mset qs" by simp
      moreover have "distinct (map fst ?ps)"
        using dist fst_ps by simp
      ultimately have "sort_key fst ?ps = sort_key fst qs"
        by (rule sort_key_fst_reordered)
      with pairs show "zip (ids ?p) (vals ?p) = sort_key fst qs" by simp
    qed
    from l d m mo al show ?thesis
      unfolding SortedById by blast
  qed
  let ?r = "\<lparr> event = e, solution = Some ?d, messages = [],
                 runtime = td (pb_runtime cb_data),
                 presolve_stats = pb_presolve_stats cb_data,
                 simplex_stats = pb_simplex_stats cb_data,
                 barrier_stats = pb_barrier_stats cb_data,
                 mip_stats = pb_mip_stats cb_data \<rparr>"
  show ?thesis
  proof (intro exI [of _ ?r] exI [of _ ?d] conjI)
    show "parse_callback_data val td cb_data mdl = Inr ?r" by (rule parsed)
    show "solution ?r = Some ?d" by simp
    show "pb_suggested_solutions
               (CallbackResult_to_proto InsertionOrder
                  \<lparr> terminate = t, generated_constraints = gs, suggested_solutions = [?d] \<rparr>)
             = [v]"
      by (simp add: CallbackResult_to_proto_def ins)
    show "\<forall>ord. \<exists>p. pb_suggested_solutions
                        (CallbackResult_to_proto ord
                           \<lparr> terminate = t, generated_constraints = gs, suggested_solutions = [?d] \<rparr>)
                      = [p] \<and>
                    length (ids p) = length (vals p) \<and> distinct (ids p) \<and>
                    mset (zip (ids p) (vals p)) = mset (zip (ids v) (vals v)) \<and>
                    map_of (zip (ids p) (vals p)) = map_of (zip (ids v) (vals v)) \<and>
                    (ord = SortedById \<longrightarrow>
                       (\<forall>qs. mset qs = mset (zip (ids v) (vals v)) \<longrightarrow>
                             zip (ids p) (vals p) = sort_key fst qs))"
    proof
      fix ord
      from enc [of ord] obtain p where
        p: "to_sparse_double_vector_proto ord ?d = p" and
        props: "length (ids p) = length (vals p)" "distinct (ids p)"
          "mset (zip (ids p) (vals p)) = mset ?ps"
          "map_of (zip (ids p) (vals p)) = map_of ?ps"
          "ord = SortedById \<longrightarrow>
             (\<forall>qs. mset qs = mset ?ps \<longrightarrow> zip (ids p) (vals p) = sort_key fst qs)"
        by blast
      have "pb_suggested_solutions
              (CallbackResult_to_proto ord
                 \<lparr> terminate = t, generated_constraints = gs, suggested_solutions = [?d] \<rparr>)
              = [p]"
        by (simp add: CallbackResult_to_proto_def p)
      with props show "\<exists>p. pb_suggested_solutions
                        (CallbackResult_to_proto ord
                           \<lparr> terminate = t, generated_constraints = gs, suggested_solutions = [?d] \<rparr>)
                      = [p] \<and>
                    length (ids p) = length (vals p) \<and> distinct (ids p) \<and>
                    mset (zip (ids p) (vals p)) = mset (zip (ids v) (vals v)) \<and>
                    map_of (zip (ids p) (vals p)) = map_of (zip (ids v) (vals v)) \<and>
                    (ord = SortedById \<longrightarrow>
                       (\<forall>qs. mset qs = mset (zip (ids v) (vals v)) \<longrightarrow>
                             zip (ids p) (vals p) = sort_key fst qs))"
        by blast
    qed
  qed
qed

theorem decode_encode_roundtrip_witness:
  "(\<exists>e. proto_value e = pb_event payload_full) \<and>
   primal_solution_vector payload_full = Some \<lparr> ids = [1, 99], vals = [Fin (1 / 2), Fin 3] \<rparr> \<and>
   length [1, 99 :: int] = length [Fin (1 / 2), Fin 3] \<and> distinct [1, 99 :: int] \<and>
   set [1, 99] \<subseteq> variable_ids model_both \<and>
   mset [(99 :: int, Fin 3), (1, Fin (1 / 2))] = mset (zip [1, 99] [Fin (1 / 2), Fin 3]) \<and>
   (\<exists>r d. parse_callback_data proto_value (\<lambda>d. d) payload_full model_both = Inr r \<and>
          solution r = Some d \<and>
          pb_suggested_solutions
              (CallbackResult_to_proto InsertionOrder
                 \<lparr> terminate = False, generated_constraints = [], suggested_solutions = [d] \<rparr>)
            = [\<lparr> ids = [1, 99], vals = [Fin (1 / 2), Fin 3] \<rparr>] \<and>
          (\<exists>p. pb_suggested_solutions
                  (CallbackResult_to_proto SortedById
                     \<lparr> terminate = False, generated_constraints = [], suggested_solutions = [d] \<rparr>)
                = [p] \<and>
               zip (ids p) (vals p) = sort_key fst [(99, Fin 3), (1, Fin (1 / 2))]))"
proof -
  have code: "\<exists>e. proto_value e = pb_event payload_full"
    by (rule exI [of _ MIP_SOLUTION]) (simp add: payload_full_def)
  have vec: "primal_solution_vector payload_full
               = Some \<lparr> ids = [1, 99], vals = [Fin (1 / 2), Fin 3] \<rparr>"
    by (simp add: payload_full_def)
  have len: "length (ids \<lparr> ids = [1, 99], vals = [Fin (1 / 2), Fin 3] \<rparr>)
               = length (vals \<lparr> ids = [1, 99], vals = [Fin (1 / 2), Fin 3] \<rparr>)"
    by simp
  have dist: "distinct (ids \<lparr> ids = [1, 99], vals = [Fin (1 / 2), Fin 3] \<rparr>)"
    by simp
  have known: "set (ids \<lparr> ids = [1, 99], vals = [Fin (1 / 2), Fin 3] \<rparr>) \<subseteq> variable_ids model_both"
    by (simp add: model_both_def)
  have reordered: "mset [(99 :: int, Fin 3), (1, Fin (1 / 2))]
                     = mset (zip [1, 99] [Fin (1 / 2), Fin 3])"
    by simp
  from decode_encode_roundtrip [where val = proto_value and td = "\<lambda>d. d" and t = False
      and gs = "[]", OF code vec len dist known]
  obtain r d where
    parsed: "parse_callback_data proto_value (\<lambda>d. d) payload_full model_both = Inr r"
      "solution r = Some d"
    and insertion: "pb_suggested_solutions
              (CallbackResult_to_proto InsertionOrder
                 \<lparr> terminate = False, generated_constraints = [], suggested_solutions = [d] \<rparr>)
            = [\<lparr> ids = [1, 99], vals = [Fin (1 / 2), Fin 3] \<rparr>]"
    and every: "\<forall>ord. \<exists>p. pb_suggested_solutions
                  (CallbackResult_to_proto ord
                     \<lparr> terminate = False, generated_constraints = [], suggested_solutions = [d] \<rparr>)
                = [p] \<and>
               length (ids p) = length (vals p) \<and> distinct (ids p) \<and>
               mset (zip (ids p) (vals p)) = mset (zip [1, 99] [Fin (1 / 2), Fin 3]) \<and>
               map_of (zip (ids p) (vals p)) = map_of (zip [1, 99] [Fin (1 / 2), Fin 3]) \<and>
               (ord = SortedById \<longrightarrow>
                  (\<forall>qs. mset qs = mset (zip [1, 99] [Fin (1 / 2), Fin 3]) \<longrightarrow>
                        zip (ids p) (vals p) = sort_key fst qs))"
    by auto
  from every obtain p where
    p: "pb_suggested_solutions
          (CallbackResult_to_proto SortedById
             \<lparr> terminate = False, generated_constraints = [], suggested_solutions = [d] \<rparr>)
        = [p]"
    and "\<forall>qs. mset qs = mset (zip [1, 99] [Fin (1 / 2), Fin 3]) \<longrightarrow>
               zip (ids p) (vals p) = sort_key fst qs"
    by blast
  with reordered have "zip (ids p) (vals p) = sort_key fst [(99, Fin 3), (1, Fin (1 / 2))]"
    by blast
  with parsed insertion p have
    "\<exists>r d. parse_callback_data proto_value (\<lambda>d. d) payload_full model_both = Inr r \<and>
          solution r = Some d \<and>
          pb_suggested_solutions
              (CallbackResult_to_proto InsertionOrder
                 \<lparr> terminate = False, generated_constraints = [], suggested_solutions = [d] \<rparr>)
            = [\<lparr> ids = [1, 99], vals = [Fin (1 / 2), Fin 3] \<rparr>] \<and>
          (\<exists>p. pb_suggested_solutions
                  (CallbackResult_to_proto SortedById
                     \<lparr> terminate = False, generated_constraints = [], suggested_solutions = [d] \<rparr>)
                = [p] \<and>
               zip (ids p) (vals p) = sort_key fst [(99, Fin 3), (1, Fin (1 / 2))])"
    by blast
  with code vec reordered show ?thesis
    by (simp add: model_both_def)
qed

section \<open>Properties of the registration\<close>

lemma finite_events: "finite (A :: event set)"
proof -
  have "(UNIV :: event set) = set all_events"
  proof -
    have "e \<in> set all_events" for e
      by (cases e) (simp_all add: all_events_def)
    then show ?thesis by blast
  qed
  then have "finite (UNIV :: event set)"
    by (metis List.finite_set)
  then show ?thesis
    by (rule rev_finite_subset) simp
qed

text \<open>
  Whatever order the comprehension visits the set in, the requested codes are the
  sorted list of the values of the members visited.
\<close>

lemma request_registration_iteration:
  assumes "distinct es" and "set es = events reg"
  shows "request_registration (CallbackRegistration_to_proto val ftp reg) = sort (map val es)"
proof -
  have "mset_set (set es) = mset es"
    using assms(1) by (rule mset_set_set)
  then have "image_mset val (mset_set (events reg)) = mset (map val es)"
    by (simp only: assms(2) mset_map)
  then have "sorted_list_of_multiset (image_mset val (mset_set (events reg))) = sort (map val es)"
    by (simp only: sorted_list_of_multiset_mset)
  then show ?thesis
    by (simp add: CallbackRegistration_to_proto_def)
qed

lemma inj_proto_value: "inj proto_value"
proof (rule injI)
  fix a b assume "proto_value a = proto_value b"
  then show "a = b" by (cases a; cases b) simp_all
qed

text \<open>
  C7: for every registration, also one with no events, the event codes that
  \<open>to_proto\<close> writes to \<open>request_registration\<close> are in increasing order and contain no
  code twice. The values of the members are pairwise distinct (\<^verbatim>\<open>@enum.unique\<close>).
\<close>

theorem CallbackRegistration_to_proto_sorted:
  assumes "inj val"
  shows "sorted (request_registration (CallbackRegistration_to_proto val ftp reg)) \<and>
         distinct (request_registration (CallbackRegistration_to_proto val ftp reg))"
proof -
  obtain es where es: "set es = events reg" "distinct es"
    using finite_distinct_list [OF finite_events] by blast
  then have eq: "request_registration (CallbackRegistration_to_proto val ftp reg)
                   = sort (map val es)"
    by (simp add: request_registration_iteration)
  have "inj_on val (set es)"
    using assms by (rule inj_on_subset) simp
  with es have "distinct (map val es)"
    by (simp add: distinct_map)
  then show ?thesis
    by (simp add: eq)
qed

theorem CallbackRegistration_to_proto_sorted_witness:
  "inj proto_value \<and>
   request_registration (CallbackRegistration_to_proto proto_value (\<lambda>f. f) cuts_only_registration)
     = [1, 4, 5] \<and>
   sorted (request_registration
             (CallbackRegistration_to_proto proto_value (\<lambda>f. f) cuts_only_registration)) \<and>
   distinct (request_registration
               (CallbackRegistration_to_proto proto_value (\<lambda>f. f) cuts_only_registration)) \<and>
   request_registration
       (CallbackRegistration_to_proto proto_value (\<lambda>f. f) (cuts_only_registration\<lparr> events := {} \<rparr>))
     = []"
proof -
  have "request_registration
          (CallbackRegistration_to_proto proto_value (\<lambda>f. f) cuts_only_registration) = [1, 4, 5]"
    by (simp add: CallbackRegistration_to_proto_def cuts_only_registration_def)
  moreover have "request_registration
       (CallbackRegistration_to_proto proto_value (\<lambda>f. f) (cuts_only_registration\<lparr> events := {} \<rparr>))
     = []"
    by (simp add: CallbackRegistration_to_proto_def)
  moreover note CallbackRegistration_to_proto_sorted
    [OF inj_proto_value, of "\<lambda>f. f" cuts_only_registration] inj_proto_value
  ultimately show ?thesis by simp
qed

section \<open>Properties of generated constraints\<close>

lemma expr_add_vars:
  "expr_add (var_expr x) (var_expr y) =
     \<lparr> expr_terms = (if x = y then [(x, Fin 2)] else [(x, Fin 1), (y, Fin 1)]),
       expr_offset = Fin 0 \<rparr>"
  by (simp add: expr_add_def var_expr_def add_term_def)

lemma dict_display_two:
  "dict_display [(x, a), (y, b)] = (if x = y then [(x, b)] else [(x, a), (y, b)])"
  by (simp add: dict_display_def)

text \<open>
  C4: a call of \<open>add_generated_constraint\<close> that passes a bounded inequality together
  with any of \<open>lb\<close>, \<open>ub\<close> and \<open>expr\<close> fails with the
  ambiguous-constraint-specification error, and leaves the result object, so also its
  list of generated constraints, as it was.
\<close>

theorem add_generated_constraint_ambiguous:
  assumes "l \<noteq> None \<or> u \<noteq> None \<or> e \<noteq> None"
  shows "add_generated_constraint self (Some b) l u e lazy
           = (self, Some AmbiguousConstraintSpecification)"
  using assms by (simp add: add_generated_constraint_def as_normalized_linear_inequality_def)

theorem add_generated_constraint_ambiguous_witness:
  "Some (Fin 1) \<noteq> (None :: pyfloat option) \<and>
   add_generated_constraint lazy_result
       (Some (UpperBounded (expr_add (var_expr var_x) (var_expr var_y)) (Fin 2)))
       (Some (Fin 1)) None None True
     = (lazy_result, Some AmbiguousConstraintSpecification) \<and>
   generated_constraints
       (fst (add_generated_constraint lazy_result
               (Some (UpperBounded (expr_add (var_expr var_x) (var_expr var_y)) (Fin 2)))
               (Some (Fin 1)) None None True))
     = [lazy_constraint]"
proof -
  have h: "Some (Fin 1) \<noteq> None \<or> (None :: pyfloat option) \<noteq> None
             \<or> (None :: linear_expression option) \<noteq> None"
    by simp
  from add_generated_constraint_ambiguous [OF h] show ?thesis
    by (simp add: lazy_result_def)
qed

text \<open>
  C5: for every result object, every flag and every two variables \<open>x\<close> and \<open>y\<close> (two:
  the terms \<^verbatim>\<open>{x: 1.0, y: 1.0}\<close> have two keys), the call with the two-sided inequality
  \<open>1 \<le> x + y \<le> 2\<close> raises nothing and appends exactly one constraint, with lower
  bound 1, upper bound 2 and the terms \<^verbatim>\<open>{x: 1.0, y: 1.0}\<close>.
\<close>

theorem add_generated_constraint_two_sided:
  assumes "x \<noteq> y"
  shows "add_generated_constraint self
           (Some (TwoSided (Fin 1) (expr_add (var_expr x) (var_expr y)) (Fin 2)))
           None None None lazy
         = (self\<lparr> generated_constraints := generated_constraints self @
               [\<lparr> terms = dict_display [(x, Fin 1), (y, Fin 1)], lower_bound = Fin 1,
                  upper_bound = Fin 2, is_lazy = lazy \<rparr>] \<rparr>, None)"
  using assms
  by (simp add: add_generated_constraint_def as_normalized_linear_inequality_def
        NormalizedLinearInequality_def expr_add_vars dict_display_two float_sub_def)

theorem add_generated_constraint_two_sided_witness:
  "var_x \<noteq> var_y \<and>
   add_generated_constraint empty_result
       (Some (TwoSided (Fin 1) (expr_add (var_expr var_x) (var_expr var_y)) (Fin 2)))
       None None None False
     = (empty_result\<lparr> generated_constraints :=
           [\<lparr> terms = [(var_x, Fin 1), (var_y, Fin 1)], lower_bound = Fin 1,
              upper_bound = Fin 2, is_lazy = False \<rparr>] \<rparr>, None)"
proof -
  have h: "var_x \<noteq> var_y"
    by (simp add: var_x_def var_y_def)
  from add_generated_constraint_two_sided [OF h, of empty_result False] h show ?thesis
    by (simp add: dict_display_two empty_result_def)
qed

text \<open>
  The call with explicit fields and the call with the inequality do the same, whatever
  the variables are.
\<close>

lemma add_generated_constraint_forms_equal:
  "add_generated_constraint self None (Some (Fin 2)) None
       (Some (expr_add (var_expr x) (var_expr y))) lazy
     = add_generated_constraint self
         (Some (LowerBounded (Fin 2) (expr_add (var_expr x) (var_expr y)))) None None None lazy"
  by (simp add: add_generated_constraint_def as_normalized_linear_inequality_def
        NormalizedLinearInequality_def expr_add_vars)

text \<open>
  C6: for every result object, every flag and every two variables \<open>x\<close> and \<open>y\<close>, the
  call with \<open>expr = x + y\<close> and \<open>lb = 2\<close> and the call with the inequality
  \<open>x + y \<ge> 2\<close> raise nothing and append equal constraints: lower bound 2, upper
  bound plus infinity, and the terms \<^verbatim>\<open>{x: 1.0, y: 1.0}\<close>.
\<close>

theorem add_generated_constraint_forms:
  assumes "x \<noteq> y"
  shows "add_generated_constraint self None (Some (Fin 2)) None
             (Some (expr_add (var_expr x) (var_expr y))) lazy
           = (self\<lparr> generated_constraints := generated_constraints self @
                 [\<lparr> terms = dict_display [(x, Fin 1), (y, Fin 1)], lower_bound = Fin 2,
                    upper_bound = PosInf, is_lazy = lazy \<rparr>] \<rparr>, None) \<and>
         add_generated_constraint self
             (Some (LowerBounded (Fin 2) (expr_add (var_expr x) (var_expr y)))) None None None lazy
           = (self\<lparr> generated_constraints := generated_constraints self @
                 [\<lparr> terms = dict_display [(x, Fin 1), (y, Fin 1)], lower_bound = Fin 2,
                    upper_bound = PosInf, is_lazy = lazy \<rparr>] \<rparr>, None)"
proof -
  have "add_generated_constraint self
             (Some (LowerBounded (Fin 2) (expr_add (var_expr x) (var_expr y)))) None None None lazy
           = (self\<lparr> generated_constraints := generated_constraints self @
                 [\<lparr> terms = dict_display [(x, Fin 1), (y, Fin 1)], lower_bound = Fin 2,
                    upper_bound = PosInf, is_lazy = lazy \<rparr>] \<rparr>, None)"
    using assms
    by (simp add: add_generated_constraint_def as_normalized_linear_inequality_def
          NormalizedLinearInequality_def expr_add_vars dict_display_two float_sub_def)
  then show ?thesis
    by (simp only: add_generated_constraint_forms_equal simp_thms)
qed

theorem add_generated_constraint_forms_witness:
  "var_x \<noteq> var_y \<and>
   add_generated_constraint empty_result None (Some (Fin 2)) None
       (Some (expr_add (var_expr var_x) (var_expr var_y))) True
     = (empty_result\<lparr> generated_constraints := [lazy_constraint] \<rparr>, None) \<and>
   add_generated_constraint empty_result
       (Some (LowerBounded (Fin 2) (expr_add (var_expr var_x) (var_expr var_y)))) None None None True
     = (empty_result\<lparr> generated_constraints := [lazy_constraint] \<rparr>, None)"
proof -
  have h: "var_x \<noteq> var_y"
    by (simp add: var_x_def var_y_def)
  from add_generated_constraint_forms [OF h, of empty_result True] h show ?thesis
    by (simp add: dict_display_two empty_result_def lazy_constraint_def)
qed

section \<open>Properties of the wire form of a result\<close>




end
